theory Spec2Isabelle
  imports Main
begin

section \<open>Python primitives used by \<open>airflow/www/utils.py\<close>\<close>

text \<open>
  Python integers are unbounded and are modelled as \<open>int\<close>. Python strings are
  modelled as \<open>string\<close> (ASCII text; a character outside ASCII is left as it is by
  \<open>lower\<close> and is never white space). \<open>None\<close> is \<open>None\<close> of an option type.
\<close>

text \<open>\<open>list(range(a, b))\<close>: the integers from \<open>a\<close> up to \<open>b - 1\<close>, empty when \<open>b \<le> a\<close>.\<close>

definition py_range :: "int \<Rightarrow> int \<Rightarrow> int list" where
  "py_range a b = [a..b - 1]"

text \<open>
  \<open>int(w / 2)\<close>: the true quotient, truncated towards zero. (The quotient is a float;
  it is exact for \<open>\<bar>w\<bar> \<le> 2 ^ 53\<close>, far beyond any pager that fits in memory.)
\<close>

definition int_half :: "int \<Rightarrow> int" where
  "int_half w = (if 0 \<le> w then w div 2 else - ((- w) div 2))"

section \<open>The pager: \<open>generate_pages\<close>\<close>

subsection \<open>The window of page indices (lines 144 to 152)\<close>

text \<open>The value of the local variable \<open>pages\<close> of \<open>generate_pages\<close>.\<close>

definition generate_pages_pages :: "int \<Rightarrow> int \<Rightarrow> int \<Rightarrow> int list" where
  "generate_pages_pages current_page num_of_pages window =
     (let mid = int_half window;
          last_page = num_of_pages - 1
      in if current_page \<le> mid \<or> num_of_pages < window
           then py_range 0 (min num_of_pages window)
         else if mid < current_page \<and> current_page < last_page - mid
           then py_range (current_page - mid) (current_page + mid + 1)
         else py_range (num_of_pages - window) (last_page + 1))"

subsection \<open>Query strings: \<open>get_params\<close> (lines 75 to 77)\<close>

text \<open>The values passed as keyword arguments: page numbers and text.\<close>

datatype pyval = PyInt int | PyStr string

text \<open>\<open>str(n)\<close> for an integer: decimal digits, with a minus sign when negative.\<close>

fun digits :: "nat \<Rightarrow> string" where
  "digits n = (if n < 10 then [''0123456789'' ! n]
               else digits (n div 10) @ [''0123456789'' ! (n mod 10)])"

declare digits.simps [simp del]

definition str_int :: "int \<Rightarrow> string" where
  "str_int i = (if i < 0 then CHR ''-'' # digits (nat (- i)) else digits (nat i))"

fun str :: "pyval \<Rightarrow> string" where
  "str (PyInt i) = str_int i"
| "str (PyStr s) = s"

text \<open>\<open>sep.join(xs)\<close>.\<close>

fun join :: "string \<Rightarrow> string list \<Rightarrow> string" where
  "join sep [] = []"
| "join sep [x] = x"
| "join sep (x # y # ys) = x @ sep @ join sep (y # ys)"

text \<open>
  \<open>urllib.parse.urlencode\<close> of the standard library, on a dictionary in insertion order:
  every key and every value goes through \<open>str\<close> and \<open>quote_plus\<close>; the pairs are
  written \<open>key=value\<close> and joined by \<open>&\<close>. \<open>quote_plus\<close> keeps letters, digits and
  \<open>_.-~\<close>, writes a space as \<open>+\<close> and every other byte as \<open>%XX\<close>.
\<close>

definition always_safe :: "char \<Rightarrow> bool" where
  "always_safe c \<longleftrightarrow>
     c \<in> set ''ABCDEFGHIJKLMNOPQRSTUVWXYZabcdefghijklmnopqrstuvwxyz0123456789_.-~''"

definition percent_hex :: "char \<Rightarrow> string" where
  "percent_hex c =
     (let n = (of_char c :: nat)
      in [CHR ''%'', ''0123456789ABCDEF'' ! (n div 16), ''0123456789ABCDEF'' ! (n mod 16)])"

definition quote_plus :: "string \<Rightarrow> string" where
  "quote_plus s =
     concat (map (\<lambda>c. if c = CHR '' '' then ''+''
                        else if always_safe c then [c] else percent_hex c) s)"

definition urlencode :: "(string \<times> pyval) list \<Rightarrow> string" where
  "urlencode query =
     join ''&'' (map (\<lambda>(k, v). quote_plus k @ ''='' @ quote_plus (str v)) query)"

text \<open>
  \<open>get_params(**kwargs)\<close>: the keyword arguments in call order, \<open>None\<close> for a value that
  is \<open>None\<close>. The dictionary comprehension keeps the pairs whose value is not \<open>None\<close>.
\<close>

definition get_params :: "(string \<times> pyval option) list \<Rightarrow> string" where
  "get_params kwargs = urlencode [(d, v). (d, Some v) \<leftarrow> kwargs]"

subsection \<open>The pager's output (lines 105 to 184)\<close>

text \<open>
  The entries of the list \<open>output\<close>: literal markup, and the five templates with the
  arguments \<open>format\<close> is called with (\<open>disabled\<close> or \<open>is_active\<close>, then \<open>href_link\<close>,
  and \<open>page_num\<close> for a page).
\<close>

datatype element =
    Markup string
  | First_node string string
  | Previous_node string string
  | Page_node string string int
  | Next_node string string
  | Last_node string string

definition void_link :: string where
  "void_link = ''javascript:void(0)''"

text \<open>The query link \<open>'?{}'.format(get_params(page=p, search=search, status=status))\<close>.\<close>

definition query_link :: "int \<Rightarrow> pyval option \<Rightarrow> pyval option \<Rightarrow> string" where
  "query_link p search status =
     ''?'' @ get_params [(''page'', Some (PyInt p)), (''search'', search), (''status'', status)]"

definition generate_pages_output ::
    "int \<Rightarrow> int \<Rightarrow> pyval option \<Rightarrow> pyval option \<Rightarrow> int \<Rightarrow> element list" where
  \<open>generate_pages_output current_page num_of_pages search status window =
     (let is_disabled = (if current_page \<le> 0 then ''disabled'' else '''');
          first = First_node is_disabled (query_link 0 search status);
          page_link = (if current_page > 0 then query_link (current_page - 1) search status
                       else void_link);
          previous = Previous_node is_disabled page_link;
          last_page = num_of_pages - 1;
          pages = generate_pages_pages current_page num_of_pages window;
          page_nodes =
            map (\<lambda>page.
                  Page_node (if page = current_page then ''active'' else '''')
                            (if page = current_page then void_link
                             else query_link page search status)
                            (page + 1)) pages;
          is_disabled' = (if current_page \<ge> num_of_pages - 1 then ''disabled'' else '''');
          page_link' = (if current_page \<ge> num_of_pages - 1 then void_link
                        else query_link (current_page + 1) search status)
      in [Markup ''<ul class="pagination" style="margin-top:0;">'', first, previous]
         @ page_nodes
         @ [Next_node is_disabled' page_link',
            Last_node is_disabled' (query_link last_page search status),
            Markup ''</ul>''])\<close>

text \<open>
  \<open>Markup.format\<close> escapes every argument: \<open>&\<close>, \<open><\<close>, \<open>>\<close>, the single and the
  double quote become character references.
\<close>

definition escape :: "string \<Rightarrow> string" where
  \<open>escape s =
     concat (map (\<lambda>c. if c = CHR ''&'' then ''&amp;''
                        else if c = CHR ''<'' then ''&lt;''
                        else if c = CHR ''>'' then ''&gt;''
                        else if c = CHR 0x27 then ''&#39;''
                        else if c = CHR 0x22 then ''&#34;''
                        else [c]) s)\<close>

fun render :: "element \<Rightarrow> string" where
  \<open>render (Markup s) = s\<close>
| \<open>render (First_node disabled href_link) =
     ''<li class="paginate_button '' @ escape disabled @ ''" id="dags_first">\<newline>''
     @ ''    <a href="'' @ escape href_link
     @ ''" aria-controls="dags" data-dt-idx="0" tabindex="0">&laquo;</a>\<newline></li>''\<close>
| \<open>render (Previous_node disabled href_link) =
     ''<li class="paginate_button previous '' @ escape disabled @ ''" id="dags_previous">\<newline>''
     @ ''    <a href="'' @ escape href_link
     @ ''" aria-controls="dags" data-dt-idx="0" tabindex="0">&lsaquo;</a>\<newline></li>''\<close>
| \<open>render (Page_node is_active href_link page_num) =
     ''<li class="paginate_button '' @ escape is_active @ ''">\<newline>''
     @ ''    <a href="'' @ escape href_link
     @ ''" aria-controls="dags" data-dt-idx="2" tabindex="0">'' @ str_int page_num
     @ ''</a>\<newline></li>''\<close>
| \<open>render (Next_node disabled href_link) =
     ''<li class="paginate_button next '' @ escape disabled @ ''" id="dags_next">\<newline>''
     @ ''    <a href="'' @ escape href_link
     @ ''" aria-controls="dags" data-dt-idx="3" tabindex="0">&rsaquo;</a>\<newline></li>''\<close>
| \<open>render (Last_node disabled href_link) =
     ''<li class="paginate_button '' @ escape disabled @ ''" id="dags_last">\<newline>''
     @ ''    <a href="'' @ escape href_link
     @ ''" aria-controls="dags" data-dt-idx="3" tabindex="0">&raquo;</a>\<newline></li>''\<close>

definition generate_pages ::
    "int \<Rightarrow> int \<Rightarrow> pyval option \<Rightarrow> pyval option \<Rightarrow> int \<Rightarrow> string" where
  "generate_pages current_page num_of_pages search status window =
     join ''\<newline>'' (map render
       (generate_pages_output current_page num_of_pages search status window))"

section \<open>Sensitive variable fields (lines 44 to 72)\<close>

definition DEFAULT_SENSITIVE_VARIABLE_FIELDS :: "string list" where
  "DEFAULT_SENSITIVE_VARIABLE_FIELDS =
     [''password'', ''secret'', ''passwd'', ''authorization'', ''api_key'', ''apikey'',
      ''access_token'']"

text \<open>
  The two options of section \<open>admin\<close> that the code reads from \<open>conf\<close>:
  \<open>conf.get('admin', 'sensitive_variable_fields')\<close>, a string or \<open>None\<close>, and
  \<open>conf.getboolean('admin', 'hide_sensitive_variable_fields')\<close>.
\<close>

record conf =
  sensitive_variable_fields :: "string option"
  hide_sensitive_variable_fields :: bool

text \<open>\<open>str.strip()\<close>: white space is removed from both ends.\<close>

definition isspace :: "char \<Rightarrow> bool" where
  "isspace c \<longleftrightarrow>
     c \<in> set [CHR '' '', CHR 0x09, CHR 0x0A, CHR 0x0B, CHR 0x0C, CHR 0x0D,
               CHR 0x1C, CHR 0x1D, CHR 0x1E, CHR 0x1F]"

definition strip :: "string \<Rightarrow> string" where
  "strip s = rev (dropWhile isspace (rev (dropWhile isspace s)))"

text \<open>\<open>str.lower()\<close>: the letters \<open>A\<close> to \<open>Z\<close> become \<open>a\<close> to \<open>z\<close>.\<close>

definition lower_char :: "char \<Rightarrow> char" where
  "lower_char c =
     (let n = (of_char c :: nat) in if 65 \<le> n \<and> n \<le> 90 then char_of (n + 32) else c)"

definition lower :: "string \<Rightarrow> string" where
  "lower s = map lower_char s"

text \<open>\<open>s.split(sep)\<close> for a separator of one character: always at least one piece.\<close>

fun split :: "char \<Rightarrow> string \<Rightarrow> string list" where
  "split sep [] = [[]]"
| "split sep (c # cs) =
     (if c = sep then [] # split sep cs
      else (case split sep cs of
              [] \<Rightarrow> [[c]]
            | w # ws \<Rightarrow> (c # w) # ws))"

text \<open>\<open>s in t\<close> for strings: \<open>s\<close> occurs in \<open>t\<close> as a contiguous piece.\<close>

fun str_in :: "string \<Rightarrow> string \<Rightarrow> bool" where
  "str_in s [] \<longleftrightarrow> s = []"
| "str_in s (c # cs) \<longleftrightarrow> take (length s) (c # cs) = s \<or> str_in s cs"

definition get_sensitive_variables_fields :: "conf \<Rightarrow> string set" where
  "get_sensitive_variables_fields cfg =
     (let sensitive_fields = set DEFAULT_SENSITIVE_VARIABLE_FIELDS
      in case sensitive_variable_fields cfg of
           None \<Rightarrow> sensitive_fields
         | Some configured \<Rightarrow>
             if configured \<noteq> []
             then sensitive_fields \<union> set (map strip (split CHR '','' configured))
             else sensitive_fields)"

text \<open>\<open>key_name\<close> is a string or \<open>None\<close>; both \<open>None\<close> and the empty string are falsy.\<close>

definition should_hide_value_for_key :: "conf \<Rightarrow> string option \<Rightarrow> bool" where
  "should_hide_value_for_key cfg key_name =
     (case key_name of
        None \<Rightarrow> False
      | Some key \<Rightarrow>
          if key \<noteq> []
          then (let config_set = hide_sensitive_variable_fields cfg;
                    field_comp = (\<exists>s \<in> get_sensitive_variables_fields cfg.
                                    str_in s (lower (strip key)))
                in config_set \<and> field_comp)
          else False)"

section \<open>The migration \<open>19d8a998c007_add_tasktag_table.py\<close>\<close>

text \<open>
  The schema the migration acts on: the sequences and the tables of the database, each
  table with its columns and its primary key. A column may take its default from a
  sequence (\<open>server_default=tag_id_sequence.next_value()\<close>).
\<close>

datatype sa_type = Integer | String_of_length nat

record column =
  column_name :: string
  column_type :: sa_type
  server_default :: "string option"
  nullable :: bool

record table =
  table_name :: string
  columns :: "column list"
  primary_key :: "string list"

record schema =
  sequences :: "string list"
  tables :: "table list"

text \<open>The operations the migration sends through \<open>op\<close>.\<close>

datatype ddl =
    CreateSequence string
  | CreateTable table
  | DropTable string
  | DropSequence string

datatype db_error =
    DuplicateObject string
  | UndefinedObject string
  | DependentObjectsStillExist string

definition uses_sequence :: "string \<Rightarrow> table \<Rightarrow> bool" where
  "uses_sequence seq t \<longleftrightarrow> Some seq \<in> set (map server_default (columns t))"

text \<open>The sequences that the defaults of a table name and the database does not have.\<close>

definition missing_sequences :: "string list \<Rightarrow> table \<Rightarrow> string list" where
  "missing_sequences seqs t = [seq. Some seq \<leftarrow> map server_default (columns t), seq \<notin> set seqs]"

text \<open>
  What the database does with one operation: creating what exists and dropping what does
  not exist are errors, a table needs the sequences its defaults name, and a sequence
  cannot be dropped while a table's default names it.
\<close>

fun execute :: "ddl \<Rightarrow> schema \<Rightarrow> db_error + schema" where
  "execute (CreateSequence seq) db =
     (if seq \<in> set (sequences db) then Inl (DuplicateObject seq)
      else Inr (db\<lparr>sequences := sequences db @ [seq]\<rparr>))"
| "execute (CreateTable t) db =
     (if table_name t \<in> set (map table_name (tables db)) then Inl (DuplicateObject (table_name t))
      else case missing_sequences (sequences db) t of
             seq # _ \<Rightarrow> Inl (UndefinedObject seq)
           | [] \<Rightarrow> Inr (db\<lparr>tables := tables db @ [t]\<rparr>))"
| "execute (DropTable name) db =
     (if name \<notin> set (map table_name (tables db)) then Inl (UndefinedObject name)
      else Inr (db\<lparr>tables := [t \<leftarrow> tables db. table_name t \<noteq> name]\<rparr>))"
| "execute (DropSequence seq) db =
     (if seq \<notin> set (sequences db) then Inl (UndefinedObject seq)
      else if list_ex (uses_sequence seq) (tables db) then Inl (DependentObjectsStillExist seq)
      else Inr (db\<lparr>sequences := [s \<leftarrow> sequences db. s \<noteq> seq]\<rparr>))"

text \<open>A schema is well formed when every sequence a default names exists.\<close>

definition wf_schema :: "schema \<Rightarrow> bool" where
  "wf_schema db \<longleftrightarrow> list_all (\<lambda>t. missing_sequences (sequences db) t = []) (tables db)"

text \<open>A migration runs its operations in order and stops at the first error.\<close>

fun run :: "ddl list \<Rightarrow> schema \<Rightarrow> db_error + schema" where
  "run [] db = Inr db"
| "run (stmt # stmts) db =
     (case execute stmt db of Inl e \<Rightarrow> Inl e | Inr db' \<Rightarrow> run stmts db')"

definition tag_id_sequence :: string where
  "tag_id_sequence = ''tag_id_sequence''"

definition task_tag :: table where
  "task_tag =
     \<lparr>table_name = ''task_tag'',
      columns =
        [\<lparr>column_name = ''tag_id'', column_type = Integer,
          server_default = Some tag_id_sequence, nullable = False\<rparr>,
         \<lparr>column_name = ''name'', column_type = String_of_length 100,
          server_default = None, nullable = False\<rparr>],
      primary_key = [''tag_id'', ''name'']\<rparr>"

definition upgrade :: "ddl list" where
  "upgrade = [CreateSequence tag_id_sequence, CreateTable task_tag]"

definition downgrade :: "ddl list" where
  "downgrade = [DropTable ''task_tag'', DropSequence tag_id_sequence]"

text \<open>The operation that undoes a creation.\<close>

fun undo :: "ddl \<Rightarrow> ddl" where
  "undo (CreateSequence seq) = DropSequence seq"
| "undo (CreateTable t) = DropTable (table_name t)"
| "undo stmt = stmt"

section \<open>UTC-aware filters (lines 373 to 405)\<close>

text \<open>
  \<open>UtcAwareFilterMixin.apply\<close>: the value is parsed with \<open>timezone.parse\<close> and
  \<open>timezone=timezone.utc\<close>, and handed to \<open>super().apply\<close>. \<open>timezone.parse\<close>, the
  time zone \<open>utc\<close> and the \<open>apply\<close> of the next class are parameters; an exception
  of \<open>timezone.parse\<close> (\<open>Inl\<close>) leaves the method at once.
\<close>

definition UtcAwareFilterMixin_apply ::
    "('v \<Rightarrow> 'tz \<Rightarrow> 'e + 'd) \<Rightarrow> 'tz \<Rightarrow> ('q \<Rightarrow> 'd \<Rightarrow> 'e + 'q) \<Rightarrow> 'q \<Rightarrow> 'v \<Rightarrow> 'e + 'q" where
  "UtcAwareFilterMixin_apply parse utc super_apply query value =
     (case parse value utc of
        Inl e \<Rightarrow> Inl e
      | Inr value' \<Rightarrow> super_apply query value')"

text \<open>
  The four comparison filters of the admin framework, and the four classes that put the
  mixin in front of one of them: \<open>class UtcAwareFilterEqual(UtcAwareFilterMixin,
  fab_sqlafilters.FilterEqual)\<close> and so on. \<open>super()\<close> in the mixin is the second base.
\<close>

datatype fab_filter = FilterEqual | FilterGreater | FilterSmaller | FilterNotEqual

datatype utc_filter =
    UtcAwareFilterEqual
  | UtcAwareFilterGreater
  | UtcAwareFilterSmaller
  | UtcAwareFilterNotEqual

fun second_base :: "utc_filter \<Rightarrow> fab_filter" where
  "second_base UtcAwareFilterEqual = FilterEqual"
| "second_base UtcAwareFilterGreater = FilterGreater"
| "second_base UtcAwareFilterSmaller = FilterSmaller"
| "second_base UtcAwareFilterNotEqual = FilterNotEqual"

text \<open>\<open>apply\<close> of a UTC-aware filter class: the mixin's method, found first.\<close>

definition utc_filter_apply ::
    "('v \<Rightarrow> 'tz \<Rightarrow> 'e + 'd) \<Rightarrow> 'tz \<Rightarrow> (fab_filter \<Rightarrow> 'q \<Rightarrow> 'd \<Rightarrow> 'e + 'q)
       \<Rightarrow> utc_filter \<Rightarrow> 'q \<Rightarrow> 'v \<Rightarrow> 'e + 'q" where
  "utc_filter_apply parse utc fab_apply cls query value =
     UtcAwareFilterMixin_apply parse utc (fab_apply (second_base cls)) query value"

section \<open>Task tags in the admin forms (lines 488 to 547)\<close>

datatype model_class = TaskTag | Model string

text \<open>
  What \<open>is_tasktag\<close> reads of the interface: the keys of \<open>list_properties\<close>, and the
  framework's \<open>is_relation\<close> and \<open>get_related_model\<close>.
\<close>

record datamodel =
  list_properties :: "string list"
  is_relation :: "string \<Rightarrow> bool"
  get_related_model :: "string \<Rightarrow> model_class"

definition is_tasktag :: "datamodel \<Rightarrow> string \<Rightarrow> bool" where
  "is_tasktag self col_name =
     (if col_name \<in> set (list_properties self) \<and> is_relation self col_name
      then (let cls = get_related_model self col_name in cls = TaskTag)
      else False)"

text \<open>
  \<open>TaskTagModelConverter._convert_col\<close>. The two methods of \<open>GeneralModelConverter\<close>
  it calls, \<open>_convert_simple\<close> and the parent's \<open>_convert_col\<close>, are parameters.
\<close>

definition convert_col ::
    "datamodel
       \<Rightarrow> (string \<Rightarrow> 'l \<Rightarrow> 'd \<Rightarrow> 'v \<Rightarrow> 'p \<Rightarrow> 'r)
       \<Rightarrow> (string \<Rightarrow> 'l \<Rightarrow> 'd \<Rightarrow> 'v \<Rightarrow> 'f \<Rightarrow> 'p \<Rightarrow> 'r)
       \<Rightarrow> string \<Rightarrow> 'l \<Rightarrow> 'd \<Rightarrow> 'v \<Rightarrow> 'f \<Rightarrow> 'p \<Rightarrow> 'r" where
  "convert_col datamodel convert_simple super_convert_col
       col_name label description lst_validators filter_rel_fields form_props =
     (if is_tasktag datamodel col_name
      then convert_simple col_name label description lst_validators form_props
      else super_convert_col col_name label description lst_validators filter_rel_fields
             form_props)"

section \<open>Properties of the page window\<close>

lemma int_half_nonneg: "0 \<le> w \<Longrightarrow> int_half w = w div 2"
  by (simp add: int_half_def)

text \<open>
  C1. For every window and every \<open>num_of_pages \<ge> window\<close>, with \<open>mid\<close> the code's
  \<open>int(window / 2)\<close> (which is \<open>window div 2\<close> for every window size \<open>window \<ge> 0\<close>):
  when \<open>mid < current_page < (num_of_pages - 1) - mid\<close> the displayed pages are the
  contiguous range from \<open>current_page - mid\<close> to \<open>current_page + mid\<close>; when
  \<open>current_page \<ge> (num_of_pages - 1) - mid\<close> and \<open>current_page > mid\<close> they are the
  last \<open>window\<close> pages, from \<open>num_of_pages - window\<close> to \<open>num_of_pages - 1\<close>.
\<close>

theorem generate_pages_window_centre_or_end:
  assumes "window \<le> num_of_pages" and "mid = int_half window"
  shows "(0 \<le> window \<longrightarrow> mid = window div 2)
       \<and> (mid < current_page \<and> current_page < (num_of_pages - 1) - mid
            \<longrightarrow> generate_pages_pages current_page num_of_pages window
                  = [current_page - mid .. current_page + mid])
       \<and> ((num_of_pages - 1) - mid \<le> current_page \<and> mid < current_page
            \<longrightarrow> generate_pages_pages current_page num_of_pages window
                  = [num_of_pages - window .. num_of_pages - 1])"
  using assms
  by (simp add: generate_pages_pages_def py_range_def Let_def int_half_nonneg)

theorem generate_pages_window_centre_or_end_witness:
  "generate_pages_pages 10 20 7 = [7, 8, 9, 10, 11, 12, 13]
   \<and> generate_pages_pages 18 20 7 = [13, 14, 15, 16, 17, 18, 19]"
proof -
  have le: "(7::int) \<le> 20" by simp
  have mid: "(3::int) = int_half 7" by (simp add: int_half_def)
  have a: "generate_pages_pages 10 20 7 = [10 - 3 .. 10 + 3]"
    using generate_pages_window_centre_or_end [OF le mid, of 10] by simp
  have b: "generate_pages_pages 18 20 7 = [20 - 7 .. 20 - 1]"
    using generate_pages_window_centre_or_end [OF le mid, of 18] by simp
  have c: "[10 - 3 .. 10 + 3] = [7, 8, 9, 10, 11, 12, 13::int]"
    by code_simp
  have d: "[20 - 7 .. 20 - 1] = [13, 14, 15, 16, 17, 18, 19::int]"
    by code_simp
  show ?thesis
    unfolding a b c d by simp
qed

text \<open>
  C2 as the spec words it fails when there are fewer pages than the window: on page 0 of
  three pages with a window of seven the hypothesis holds, and the pages shown are the
  three pages, not the seven indices of \<open>[0, window)\<close>.
\<close>

theorem generate_pages_start_window_counterexample:
  "((0::int) \<le> 7 div 2 \<or> (3::int) < 7)
   \<and> generate_pages_pages 0 3 7 = [0, 1, 2]
   \<and> generate_pages_pages 0 3 7 \<noteq> py_range 0 7"
proof -
  have shown: "generate_pages_pages 0 3 7 = [0, 1, 2]"
    by code_simp
  have all: "py_range 0 7 = [0, 1, 2, 3, 4, 5, 6]"
    by code_simp
  show ?thesis
    unfolding shown all by simp
qed

text \<open>
  C2, amended. If \<open>current_page \<le> window div 2\<close> or \<open>num_of_pages < window\<close>, the
  displayed pages are \<open>0, 1, ..., min(num_of_pages, window) - 1\<close>: the first
  \<open>window\<close> pages when there are that many, and all \<open>num_of_pages\<close> pages otherwise.
\<close>

theorem generate_pages_start_window:
  assumes "current_page \<le> window div 2 \<or> num_of_pages < window"
  shows "generate_pages_pages current_page num_of_pages window
           = py_range 0 (min num_of_pages window)"
proof -
  have "window div 2 \<le> int_half window"
    by (simp add: int_half_def) arith
  with assms have "current_page \<le> int_half window \<or> num_of_pages < window"
    by auto
  then show ?thesis
    by (auto simp: generate_pages_pages_def Let_def)
qed

theorem generate_pages_start_window_witness:
  "generate_pages_pages 2 3 7 = [0, 1, 2] \<and> generate_pages_pages 3 20 7 = [0, 1, 2, 3, 4, 5, 6]"
proof -
  have a: "(2::int) \<le> 7 div 2 \<or> (3::int) < 7" by simp
  have b: "(3::int) \<le> 7 div 2 \<or> (20::int) < 7" by simp
  have "py_range 0 (min 3 7) = [0, 1, 2]" by code_simp
  moreover have "py_range 0 (min 20 7) = [0, 1, 2, 3, 4, 5, 6]" by code_simp
  ultimately show ?thesis
    using generate_pages_start_window [OF a] generate_pages_start_window [OF b] by simp
qed

text \<open>
  C3. With twenty pages and a window of seven, the pages shown are 0 to 6 on page 0,
  7 to 13 on page 10, and 13 to 19 on page 19.
\<close>

theorem generate_pages_examples_20_7:
  "generate_pages_pages 0 20 7 = [0, 1, 2, 3, 4, 5, 6]
   \<and> generate_pages_pages 10 20 7 = [7, 8, 9, 10, 11, 12, 13]
   \<and> generate_pages_pages 19 20 7 = [13, 14, 15, 16, 17, 18, 19]"
  by code_simp

section \<open>Properties of the pager's controls and links\<close>

lemma query_link_eq:
  "query_link p search status =
     ''?'' @ urlencode ((''page'', PyInt p)
              # (case search of None \<Rightarrow> [] | Some s \<Rightarrow> [(''search'', s)])
              @ (case status of None \<Rightarrow> [] | Some t \<Rightarrow> [(''status'', t)]))"
  by (simp add: query_link_def get_params_def split: option.splits)

lemma get_params_filter:
  "get_params kwargs = urlencode (map (\<lambda>(d, v). (d, the v)) (filter (\<lambda>(d, v). v \<noteq> None) kwargs))"
  unfolding get_params_def
  by (rule arg_cong [where f = urlencode]) (induction kwargs, auto split: option.splits)

lemma get_params_None:
  "get_params (kwargs @ (d, None) # kwargs') = get_params (kwargs @ kwargs')"
  by (simp add: get_params_def)

lemma query_link_not_void: "query_link p search status \<noteq> void_link"
  by (simp add: void_link_def query_link_def)

lemma escape_void_link: "escape void_link = void_link"
  by (simp add: escape_def void_link_def)

lemma escaped_query_link_not_void: "escape (query_link p search status) \<noteq> escape void_link"
  by (simp add: escape_void_link) (simp add: void_link_def query_link_def escape_def)

text \<open>
  The text \<open>generate_pages\<close> returns, written out: the opening tag, the first and the
  previous control, one entry for each page of the window, the next and the last
  control, the closing tag, joined by line breaks.
\<close>

lemma escape_marker:
  "escape ''disabled'' = ''disabled''" "escape ''active'' = ''active''" "escape [] = []"
  by (simp_all add: escape_def)

lemma generate_pages_text:
  \<open>generate_pages current_page num_of_pages search status window =
     join ''\<newline>''
       ([''<ul class="pagination" style="margin-top:0;">'',
         ''<li class="paginate_button '' @ (if current_page \<le> 0 then ''disabled'' else '''')
           @ ''" id="dags_first">\<newline>    <a href="''
           @ escape (query_link 0 search status)
           @ ''" aria-controls="dags" data-dt-idx="0" tabindex="0">&laquo;</a>\<newline></li>'',
         ''<li class="paginate_button previous '' @ (if current_page \<le> 0 then ''disabled'' else '''')
           @ ''" id="dags_previous">\<newline>    <a href="''
           @ escape (if current_page \<le> 0 then void_link
                     else query_link (current_page - 1) search status)
           @ ''" aria-controls="dags" data-dt-idx="0" tabindex="0">&lsaquo;</a>\<newline></li>'']
        @ map (\<lambda>page.
                 ''<li class="paginate_button '' @ (if page = current_page then ''active'' else '''')
                 @ ''">\<newline>    <a href="''
                 @ escape (if page = current_page then void_link
                           else query_link page search status)
                 @ ''" aria-controls="dags" data-dt-idx="2" tabindex="0">'' @ str_int (page + 1)
                 @ ''</a>\<newline></li>'')
              (generate_pages_pages current_page num_of_pages window)
        @ [''<li class="paginate_button next ''
             @ (if num_of_pages - 1 \<le> current_page then ''disabled'' else '''')
             @ ''" id="dags_next">\<newline>    <a href="''
             @ escape (if num_of_pages - 1 \<le> current_page then void_link
                       else query_link (current_page + 1) search status)
             @ ''" aria-controls="dags" data-dt-idx="3" tabindex="0">&rsaquo;</a>\<newline></li>'',
           ''<li class="paginate_button ''
             @ (if num_of_pages - 1 \<le> current_page then ''disabled'' else '''')
             @ ''" id="dags_last">\<newline>    <a href="''
             @ escape (query_link (num_of_pages - 1) search status)
             @ ''" aria-controls="dags" data-dt-idx="3" tabindex="0">&raquo;</a>\<newline></li>'',
           ''</ul>''])\<close>
proof -
  have pages: \<open>map render (map (\<lambda>page.
                  Page_node (if page = current_page then ''active'' else '''')
                            (if page = current_page then void_link
                             else query_link page search status)
                            (page + 1)) ps)
       = map (\<lambda>page.
                 ''<li class="paginate_button '' @ (if page = current_page then ''active'' else '''')
                 @ ''">\<newline>    <a href="''
                 @ escape (if page = current_page then void_link
                           else query_link page search status)
                 @ ''" aria-controls="dags" data-dt-idx="2" tabindex="0">'' @ str_int (page + 1)
                 @ ''</a>\<newline></li>'') ps\<close> for ps
    by (induction ps) (simp_all add: escape_marker)
  show ?thesis
    unfolding generate_pages_def generate_pages_output_def Let_def map_append pages
    by (simp add: escape_marker)
qed

text \<open>
  C4. In the text \<open>generate_pages\<close> returns, the first and the previous control have
  the marker \<open>disabled\<close> in their class exactly when \<open>current_page \<le> 0\<close>, and the
  next and the last control exactly when \<open>current_page \<ge> num_of_pages - 1\<close>; a
  control without the marker has nothing in its place.
\<close>

theorem generate_pages_disabled_controls:
  \<open>\<exists>d d' first_link previous_link page_items next_link last_link.
     generate_pages current_page num_of_pages search status window =
       join ''\<newline>''
         ([''<ul class="pagination" style="margin-top:0;">'',
           ''<li class="paginate_button '' @ d
             @ ''" id="dags_first">\<newline>    <a href="'' @ first_link
             @ ''" aria-controls="dags" data-dt-idx="0" tabindex="0">&laquo;</a>\<newline></li>'',
           ''<li class="paginate_button previous '' @ d
             @ ''" id="dags_previous">\<newline>    <a href="'' @ previous_link
             @ ''" aria-controls="dags" data-dt-idx="0" tabindex="0">&lsaquo;</a>\<newline></li>'']
          @ page_items
          @ [''<li class="paginate_button next '' @ d'
               @ ''" id="dags_next">\<newline>    <a href="'' @ next_link
               @ ''" aria-controls="dags" data-dt-idx="3" tabindex="0">&rsaquo;</a>\<newline></li>'',
             ''<li class="paginate_button '' @ d'
               @ ''" id="dags_last">\<newline>    <a href="'' @ last_link
               @ ''" aria-controls="dags" data-dt-idx="3" tabindex="0">&raquo;</a>\<newline></li>'',
             ''</ul>''])
     \<and> (d = ''disabled'' \<longleftrightarrow> current_page \<le> 0) \<and> (d = ''disabled'' \<or> d = [])
     \<and> (d' = ''disabled'' \<longleftrightarrow> current_page \<ge> num_of_pages - 1)
     \<and> (d' = ''disabled'' \<or> d' = [])\<close>
  apply (rule exI [where x = "if current_page \<le> 0 then ''disabled'' else []"])
  apply (rule exI [where x = "if num_of_pages - 1 \<le> current_page then ''disabled'' else []"])
  apply (intro exI conjI)
      apply (rule generate_pages_text)
     apply simp_all
  done

theorem generate_pages_disabled_controls_witness:
  \<open>\<exists>rest. generate_pages 0 3 None None 7 =
     ''<ul class="pagination" style="margin-top:0;">\<newline>''
     @ ''<li class="paginate_button disabled" id="dags_first">'' @ rest\<close>
  using generate_pages_disabled_controls [of 0 3 None None 7]
proof (elim exE conjE)
  fix d d' first_link previous_link page_items next_link last_link
  assume shape: \<open>generate_pages 0 3 None None 7 =
       join ''\<newline>''
         ([''<ul class="pagination" style="margin-top:0;">'',
           ''<li class="paginate_button '' @ d
             @ ''" id="dags_first">\<newline>    <a href="'' @ first_link
             @ ''" aria-controls="dags" data-dt-idx="0" tabindex="0">&laquo;</a>\<newline></li>'',
           ''<li class="paginate_button previous '' @ d
             @ ''" id="dags_previous">\<newline>    <a href="'' @ previous_link
             @ ''" aria-controls="dags" data-dt-idx="0" tabindex="0">&lsaquo;</a>\<newline></li>'']
          @ page_items
          @ [''<li class="paginate_button next '' @ d'
               @ ''" id="dags_next">\<newline>    <a href="'' @ next_link
               @ ''" aria-controls="dags" data-dt-idx="3" tabindex="0">&rsaquo;</a>\<newline></li>'',
             ''<li class="paginate_button '' @ d'
               @ ''" id="dags_last">\<newline>    <a href="'' @ last_link
               @ ''" aria-controls="dags" data-dt-idx="3" tabindex="0">&raquo;</a>\<newline></li>'',
             ''</ul>''])\<close>
    and marker: "(d = ''disabled'') = ((0::int) \<le> 0)"
  from marker have d: "d = ''disabled''"
    by simp
  show ?thesis
    unfolding shape d by simp
qed

text \<open>
  C10 as the spec words it fails for the links that are not built by \<open>get_params\<close>:
  on page 0 with \<open>search='x'\<close> the previous control is disabled and its link, like
  the link of the entry of the current page, is the inert \<open>javascript:void(0)\<close>, in
  which \<open>search\<close> does not occur.
\<close>

theorem get_params_omits_None_counterexample:
  \<open>generate_pages 0 3 (Some (PyStr ''x'')) None 7 =
        ''<ul class="pagination" style="margin-top:0;">\<newline>''
      @ ''<li class="paginate_button disabled" id="dags_first">\<newline>''
      @ ''    <a href="?page=0&amp;search=x" aria-controls="dags" data-dt-idx="0" tabindex="0">&laquo;</a>\<newline>''
      @ ''</li>\<newline>''
      @ ''<li class="paginate_button previous disabled" id="dags_previous">\<newline>''
      @ ''    <a href="javascript:void(0)" aria-controls="dags" data-dt-idx="0" tabindex="0">&lsaquo;</a>\<newline>''
      @ ''</li>\<newline>''
      @ ''<li class="paginate_button active">\<newline>''
      @ ''    <a href="javascript:void(0)" aria-controls="dags" data-dt-idx="2" tabindex="0">1</a>\<newline>''
      @ ''</li>\<newline>''
      @ ''<li class="paginate_button ">\<newline>''
      @ ''    <a href="?page=1&amp;search=x" aria-controls="dags" data-dt-idx="2" tabindex="0">2</a>\<newline>''
      @ ''</li>\<newline>''
      @ ''<li class="paginate_button ">\<newline>''
      @ ''    <a href="?page=2&amp;search=x" aria-controls="dags" data-dt-idx="2" tabindex="0">3</a>\<newline>''
      @ ''</li>\<newline>''
      @ ''<li class="paginate_button next " id="dags_next">\<newline>''
      @ ''    <a href="?page=1&amp;search=x" aria-controls="dags" data-dt-idx="3" tabindex="0">&rsaquo;</a>\<newline>''
      @ ''</li>\<newline>''
      @ ''<li class="paginate_button " id="dags_last">\<newline>''
      @ ''    <a href="?page=2&amp;search=x" aria-controls="dags" data-dt-idx="3" tabindex="0">&raquo;</a>\<newline>''
      @ ''</li>\<newline>''
      @ ''</ul>''
   \<and> Previous_node ''disabled'' ''javascript:void(0)''
         \<in> set (generate_pages_output 0 3 (Some (PyStr ''x'')) None 7)
   \<and> \<not> str_in ''search'' ''javascript:void(0)''\<close>
proof -
  have html: \<open>generate_pages 0 3 (Some (PyStr ''x'')) None 7 =
        ''<ul class="pagination" style="margin-top:0;">\<newline>''
      @ ''<li class="paginate_button disabled" id="dags_first">\<newline>''
      @ ''    <a href="?page=0&amp;search=x" aria-controls="dags" data-dt-idx="0" tabindex="0">&laquo;</a>\<newline>''
      @ ''</li>\<newline>''
      @ ''<li class="paginate_button previous disabled" id="dags_previous">\<newline>''
      @ ''    <a href="javascript:void(0)" aria-controls="dags" data-dt-idx="0" tabindex="0">&lsaquo;</a>\<newline>''
      @ ''</li>\<newline>''
      @ ''<li class="paginate_button active">\<newline>''
      @ ''    <a href="javascript:void(0)" aria-controls="dags" data-dt-idx="2" tabindex="0">1</a>\<newline>''
      @ ''</li>\<newline>''
      @ ''<li class="paginate_button ">\<newline>''
      @ ''    <a href="?page=1&amp;search=x" aria-controls="dags" data-dt-idx="2" tabindex="0">2</a>\<newline>''
      @ ''</li>\<newline>''
      @ ''<li class="paginate_button ">\<newline>''
      @ ''    <a href="?page=2&amp;search=x" aria-controls="dags" data-dt-idx="2" tabindex="0">3</a>\<newline>''
      @ ''</li>\<newline>''
      @ ''<li class="paginate_button next " id="dags_next">\<newline>''
      @ ''    <a href="?page=1&amp;search=x" aria-controls="dags" data-dt-idx="3" tabindex="0">&rsaquo;</a>\<newline>''
      @ ''</li>\<newline>''
      @ ''<li class="paginate_button " id="dags_last">\<newline>''
      @ ''    <a href="?page=2&amp;search=x" aria-controls="dags" data-dt-idx="3" tabindex="0">&raquo;</a>\<newline>''
      @ ''</li>\<newline>''
      @ ''</ul>''\<close>
    by code_simp
  have out: \<open>generate_pages_output 0 3 (Some (PyStr ''x'')) None 7 =
      [Markup ''<ul class="pagination" style="margin-top:0;">'',
       First_node ''disabled'' ''?page=0&search=x'',
       Previous_node ''disabled'' ''javascript:void(0)'',
       Page_node ''active'' ''javascript:void(0)'' 1,
       Page_node [] ''?page=1&search=x'' 2,
       Page_node [] ''?page=2&search=x'' 3,
       Next_node [] ''?page=1&search=x'',
       Last_node [] ''?page=2&search=x'',
       Markup ''</ul>'']\<close>
    by code_simp
  have absent: "\<not> str_in ''search'' ''javascript:void(0)''"
    by code_simp
  have member: "Previous_node ''disabled'' ''javascript:void(0)''
         \<in> set (generate_pages_output 0 3 (Some (PyStr ''x'')) None 7)"
    unfolding out by simp
  from html member absent show ?thesis
    by (intro conjI)
qed

text \<open>
  C10, amended. \<open>get_params\<close> leaves out every keyword argument whose value is
  \<open>None\<close>: the result is the encoding of the other pairs, and a pair with \<open>None\<close>
  changes nothing. In the text \<open>generate_pages\<close> returns, the link of the previous
  control is the inert \<open>void_link\<close> exactly when \<open>current_page \<le> 0\<close>, the link of the
  next control exactly when \<open>current_page \<ge> num_of_pages - 1\<close>, and the link of a page
  entry exactly when the page is the current one. Every other link, and always the link
  of the first and of the last control, is the query link of its page: \<open>?\<close> and the
  encoding of \<open>page\<close>, then \<open>search\<close> when it is not \<open>None\<close>, then \<open>status\<close> when
  it is not \<open>None\<close>, with the values given; a query link is never the inert link.
\<close>

theorem get_params_omits_None:
  assumes link: \<open>link = (\<lambda>page.
      ''?'' @ urlencode ((''page'', PyInt page)
               # (case search of None \<Rightarrow> [] | Some s \<Rightarrow> [(''search'', s)])
               @ (case status of None \<Rightarrow> [] | Some t \<Rightarrow> [(''status'', t)])))\<close>
  shows \<open>get_params (kwargs @ (d, None) # kwargs') = get_params (kwargs @ kwargs')
       \<and> get_params kwargs
           = urlencode (map (\<lambda>(d, v). (d, the v)) (filter (\<lambda>(d, v). v \<noteq> None) kwargs))
       \<and> (\<forall>page. link page \<noteq> void_link \<and> escape (link page) \<noteq> escape void_link)
       \<and> generate_pages current_page num_of_pages search status window =
           join ''\<newline>''
             ([''<ul class="pagination" style="margin-top:0;">'',
               ''<li class="paginate_button '' @ (if current_page \<le> 0 then ''disabled'' else '''')
                 @ ''" id="dags_first">\<newline>    <a href="''
                 @ escape (link 0)
                 @ ''" aria-controls="dags" data-dt-idx="0" tabindex="0">&laquo;</a>\<newline></li>'',
               ''<li class="paginate_button previous ''
                 @ (if current_page \<le> 0 then ''disabled'' else '''')
                 @ ''" id="dags_previous">\<newline>    <a href="''
                 @ escape (if current_page \<le> 0 then void_link else link (current_page - 1))
                 @ ''" aria-controls="dags" data-dt-idx="0" tabindex="0">&lsaquo;</a>\<newline></li>'']
              @ map (\<lambda>page.
                       ''<li class="paginate_button ''
                       @ (if page = current_page then ''active'' else '''')
                       @ ''">\<newline>    <a href="''
                       @ escape (if page = current_page then void_link else link page)
                       @ ''" aria-controls="dags" data-dt-idx="2" tabindex="0">''
                       @ str_int (page + 1) @ ''</a>\<newline></li>'')
                    (generate_pages_pages current_page num_of_pages window)
              @ [''<li class="paginate_button next ''
                   @ (if num_of_pages - 1 \<le> current_page then ''disabled'' else '''')
                   @ ''" id="dags_next">\<newline>    <a href="''
                   @ escape (if num_of_pages - 1 \<le> current_page then void_link
                             else link (current_page + 1))
                   @ ''" aria-controls="dags" data-dt-idx="3" tabindex="0">&rsaquo;</a>\<newline></li>'',
                 ''<li class="paginate_button ''
                   @ (if num_of_pages - 1 \<le> current_page then ''disabled'' else '''')
                   @ ''" id="dags_last">\<newline>    <a href="''
                   @ escape (link (num_of_pages - 1))
                   @ ''" aria-controls="dags" data-dt-idx="3" tabindex="0">&raquo;</a>\<newline></li>'',
                 ''</ul>''])\<close>
proof -
  have query: "link = (\<lambda>page. query_link page search status)"
    unfolding link by (simp add: query_link_eq)
  have differs: "link page \<noteq> void_link \<and> escape (link page) \<noteq> escape void_link" for page
    unfolding query by (simp add: query_link_not_void escaped_query_link_not_void)
  show ?thesis
    using differs get_params_None [of kwargs d kwargs'] get_params_filter [of kwargs]
      generate_pages_text [of current_page num_of_pages search status window]
    unfolding query by blast
qed

theorem get_params_omits_None_witness:
  \<open>generate_pages 0 3 (Some (PyStr ''a b'')) None 7 =
        ''<ul class="pagination" style="margin-top:0;">\<newline>''
      @ ''<li class="paginate_button disabled" id="dags_first">\<newline>''
      @ ''    <a href="?page=0&amp;search=a+b" aria-controls="dags" data-dt-idx="0" tabindex="0">&laquo;</a>\<newline>''
      @ ''</li>\<newline>''
      @ ''<li class="paginate_button previous disabled" id="dags_previous">\<newline>''
      @ ''    <a href="javascript:void(0)" aria-controls="dags" data-dt-idx="0" tabindex="0">&lsaquo;</a>\<newline>''
      @ ''</li>\<newline>''
      @ ''<li class="paginate_button active">\<newline>''
      @ ''    <a href="javascript:void(0)" aria-controls="dags" data-dt-idx="2" tabindex="0">1</a>\<newline>''
      @ ''</li>\<newline>''
      @ ''<li class="paginate_button ">\<newline>''
      @ ''    <a href="?page=1&amp;search=a+b" aria-controls="dags" data-dt-idx="2" tabindex="0">2</a>\<newline>''
      @ ''</li>\<newline>''
      @ ''<li class="paginate_button ">\<newline>''
      @ ''    <a href="?page=2&amp;search=a+b" aria-controls="dags" data-dt-idx="2" tabindex="0">3</a>\<newline>''
      @ ''</li>\<newline>''
      @ ''<li class="paginate_button next " id="dags_next">\<newline>''
      @ ''    <a href="?page=1&amp;search=a+b" aria-controls="dags" data-dt-idx="3" tabindex="0">&rsaquo;</a>\<newline>''
      @ ''</li>\<newline>''
      @ ''<li class="paginate_button " id="dags_last">\<newline>''
      @ ''    <a href="?page=2&amp;search=a+b" aria-controls="dags" data-dt-idx="3" tabindex="0">&raquo;</a>\<newline>''
      @ ''</li>\<newline>''
      @ ''</ul>''\<close>
proof -
  note t = get_params_omits_None
    [OF refl, where current_page = 0 and num_of_pages = 3 and search = "Some (PyStr ''a b'')"
       and status = None and window = 7]
  show ?thesis
    unfolding t [THEN conjunct2, THEN conjunct2, THEN conjunct2]
    by code_simp
qed

section \<open>Properties of the sensitive-field check\<close>

text \<open>
  The recursive test \<open>str_in\<close> is the substring relation.
\<close>

lemma str_in_iff: "str_in s t \<longleftrightarrow> (\<exists>ps ss. t = ps @ s @ ss)"
proof (induction t)
  case Nil
  then show ?case by auto
next
  case (Cons c cs)
  have "take (length s) (c # cs) = s \<longleftrightarrow> (\<exists>ss. c # cs = s @ ss)"
    by (metis append_eq_conv_conj append_take_drop_id)
  moreover have "(\<exists>ps ss. c # cs = ps @ s @ ss)
      \<longleftrightarrow> (\<exists>ss. c # cs = s @ ss) \<or> (\<exists>ps ss. cs = ps @ s @ ss)"
    by (auto simp: Cons_eq_append_conv) 
  ultimately show ?case
    using Cons.IH by simp
qed

lemma default_fields:
  assumes "sensitive_variable_fields cfg = None \<or> sensitive_variable_fields cfg = Some []"
  shows "get_sensitive_variables_fields cfg = set DEFAULT_SENSITIVE_VARIABLE_FIELDS"
  using assms by (auto simp: get_sensitive_variables_fields_def)

lemma user_password_matches:
  "\<exists>s \<in> set DEFAULT_SENSITIVE_VARIABLE_FIELDS. str_in s (lower (strip ''user_password''))"
  by code_simp

lemma username_no_match:
  "\<not> (\<exists>s \<in> set DEFAULT_SENSITIVE_VARIABLE_FIELDS. str_in s (lower (strip ''username'')))"
  by code_simp

lemma default_fields_nonempty:
  "\<not> (\<exists>s \<in> set DEFAULT_SENSITIVE_VARIABLE_FIELDS. str_in s [])"
  by (simp add: DEFAULT_SENSITIVE_VARIABLE_FIELDS_def)

lemma lower_strip_Nil: "lower (strip []) = []"
  by (simp add: lower_def strip_def)

lemma should_hide_value_for_key_nonempty:
  "key \<noteq> [] \<Longrightarrow>
     should_hide_value_for_key cfg (Some key)
       \<longleftrightarrow> hide_sensitive_variable_fields cfg
           \<and> (\<exists>s \<in> get_sensitive_variables_fields cfg. str_in s (lower (strip key)))"
  by (simp add: should_hide_value_for_key_def)

text \<open>
  \<open>split\<close> cuts at every separator and nowhere else: joining the pieces with the
  separator gives the string back, and no piece holds a separator.
\<close>

lemma split_not_Nil: "split sep s \<noteq> []"
  by (induction s) (auto split: list.splits)

lemma join_Cons: "ws \<noteq> [] \<Longrightarrow> join sep (w # ws) = w @ sep @ join sep ws"
  by (cases ws) simp_all

lemma join_split: "join [sep] (split sep s) = s"
proof (induction s)
  case Nil
  then show ?case by simp
next
  case (Cons c cs)
  show ?case
  proof (cases "c = sep")
    case True
    then show ?thesis
      using Cons.IH by (simp add: join_Cons split_not_Nil)
  next
    case False
    obtain w ws where pieces: "split sep cs = w # ws"
      using split_not_Nil [of sep cs] by (cases "split sep cs") auto
    then show ?thesis
      using False Cons.IH by (cases ws) simp_all
  qed
qed

lemma split_pieces: "w \<in> set (split sep s) \<Longrightarrow> sep \<notin> set w"
  by (induction s arbitrary: w) (auto split: if_splits list.splits)

text \<open>The merged set: the default fields and the stripped pieces of a configured list.\<close>

lemma merged_fields:
  "get_sensitive_variables_fields cfg =
     set DEFAULT_SENSITIVE_VARIABLE_FIELDS
     \<union> (case sensitive_variable_fields cfg of
          None \<Rightarrow> {}
        | Some configured \<Rightarrow>
            if configured = [] then {} else strip ` set (split CHR '','' configured))"
  by (simp add: get_sensitive_variables_fields_def split: option.splits)

text \<open>
  C5 as the spec words it fails outside the default configuration. With hiding switched
  off, \<open>password\<close> is in the merged set and occurs in \<open>user_password\<close>, and the key is
  not flagged. With the configured list \<open>foo,\<close> the empty string is in the merged set
  and occurs in every key, and the empty key is not flagged.
\<close>

theorem should_hide_value_for_key_matches_counterexample:
  "''password'' \<in> get_sensitive_variables_fields
       \<lparr>sensitive_variable_fields = None, hide_sensitive_variable_fields = False\<rparr>
   \<and> str_in ''password'' (lower (strip ''user_password''))
   \<and> \<not> should_hide_value_for_key
       \<lparr>sensitive_variable_fields = None, hide_sensitive_variable_fields = False\<rparr>
       (Some ''user_password'')
   \<and> [] \<in> get_sensitive_variables_fields
       \<lparr>sensitive_variable_fields = Some ''foo,'', hide_sensitive_variable_fields = True\<rparr>
   \<and> str_in [] (lower (strip []))
   \<and> \<not> should_hide_value_for_key
       \<lparr>sensitive_variable_fields = Some ''foo,'', hide_sensitive_variable_fields = True\<rparr>
       (Some [])"
proof -
  let ?off = "\<lparr>sensitive_variable_fields = None, hide_sensitive_variable_fields = False\<rparr>"
  let ?cfg = "\<lparr>sensitive_variable_fields = Some ''foo,'', hide_sensitive_variable_fields = True\<rparr>"
  have password: "''password'' \<in> get_sensitive_variables_fields ?off"
    by (simp add: merged_fields DEFAULT_SENSITIVE_VARIABLE_FIELDS_def)
  have occurs: "str_in ''password'' (lower (strip ''user_password''))"
    by code_simp
  have off: "\<not> should_hide_value_for_key ?off (Some ''user_password'')"
    by (simp add: should_hide_value_for_key_def)
  have pieces: "split CHR '','' ''foo,'' = [''foo'', []]"
    by code_simp
  have "strip [] = []"
    by (simp add: strip_def)
  then have empty: "[] \<in> get_sensitive_variables_fields ?cfg"
    by (simp add: merged_fields pieces image_def)
  have everywhere: "str_in [] (lower (strip []))"
    by (simp add: lower_strip_Nil)
  have unflagged: "\<not> should_hide_value_for_key ?cfg (Some [])"
    by (simp add: should_hide_value_for_key_def)
  from password occurs off empty everywhere unflagged show ?thesis
    by (intro conjI)
qed

text \<open>
  C5, amended. Under the default configuration (hiding enabled, no configured fields
  beside the fixed default set), \<open>user_password\<close> is hidden and \<open>username\<close> is not.
  In every configuration the merged set is the default set together with the stripped
  pieces of the configured list, and a key is flagged exactly when it is not empty,
  hiding is enabled, and some entry of the merged set occurs in the stripped,
  lower-cased key as a contiguous piece.
\<close>

theorem should_hide_value_for_key_matches:
  "(hide_sensitive_variable_fields cfg
      \<and> (sensitive_variable_fields cfg = None \<or> sensitive_variable_fields cfg = Some [])
     \<longrightarrow> should_hide_value_for_key cfg (Some ''user_password'')
         \<and> \<not> should_hide_value_for_key cfg (Some ''username''))
   \<and> get_sensitive_variables_fields cfg =
       set DEFAULT_SENSITIVE_VARIABLE_FIELDS
       \<union> (case sensitive_variable_fields cfg of
            None \<Rightarrow> {}
          | Some configured \<Rightarrow>
              if configured = [] then {} else strip ` set (split CHR '','' configured))
   \<and> (should_hide_value_for_key cfg key_name \<longleftrightarrow>
        (\<exists>key. key_name = Some key \<and> key \<noteq> []
           \<and> hide_sensitive_variable_fields cfg
           \<and> (\<exists>s \<in> get_sensitive_variables_fields cfg.
                 \<exists>before after. lower (strip key) = before @ s @ after)))"
proof -
  have examples: "should_hide_value_for_key cfg (Some ''user_password'')
         \<and> \<not> should_hide_value_for_key cfg (Some ''username'')"
    if hide: "hide_sensitive_variable_fields cfg"
      and none: "sensitive_variable_fields cfg = None \<or> sensitive_variable_fields cfg = Some []"
  proof -
    note fields = default_fields [OF none]
    have "should_hide_value_for_key cfg (Some ''user_password'')"
      using hide user_password_matches by (simp add: should_hide_value_for_key_def fields)
    moreover have "\<not> should_hide_value_for_key cfg (Some ''username'')"
      using username_no_match by (simp add: should_hide_value_for_key_def fields)
    ultimately show ?thesis ..
  qed
  have flagged: "should_hide_value_for_key cfg key_name \<longleftrightarrow>
        (\<exists>key. key_name = Some key \<and> key \<noteq> []
           \<and> hide_sensitive_variable_fields cfg
           \<and> (\<exists>s \<in> get_sensitive_variables_fields cfg.
                 \<exists>before after. lower (strip key) = before @ s @ after))"
  proof (cases key_name)
    case None
    then show ?thesis
      by (simp add: should_hide_value_for_key_def)
  next
    case (Some key)
    then show ?thesis
      by (cases "key = []") (simp_all add: should_hide_value_for_key_def str_in_iff)
  qed
  from examples flagged merged_fields [of cfg] show ?thesis
    by blast
qed

theorem should_hide_value_for_key_matches_witness:
  "should_hide_value_for_key
     \<lparr>sensitive_variable_fields = None, hide_sensitive_variable_fields = True\<rparr>
     (Some ''user_password'')
   \<and> \<not> should_hide_value_for_key
     \<lparr>sensitive_variable_fields = None, hide_sensitive_variable_fields = True\<rparr>
     (Some ''username'')
   \<and> should_hide_value_for_key
     \<lparr>sensitive_variable_fields = Some ''token, key'', hide_sensitive_variable_fields = True\<rparr>
     (Some '' My_Key '')"
proof -
  let ?default = "\<lparr>sensitive_variable_fields = None, hide_sensitive_variable_fields = True\<rparr>"
  let ?cfg = "\<lparr>sensitive_variable_fields = Some ''token, key'',
               hide_sensitive_variable_fields = True\<rparr>"
  have default: "hide_sensitive_variable_fields ?default
      \<and> (sensitive_variable_fields ?default = None \<or> sensitive_variable_fields ?default = Some [])"
    by simp
  note examples =
    should_hide_value_for_key_matches [of ?default, THEN conjunct1, THEN mp, OF default]
  have pieces: "split CHR '','' ''token, key'' = [''token'', '' key'']"
    by code_simp
  have stripped: "strip '' key'' = ''key''"
    by code_simp
  have key: "lower (strip '' My_Key '') = ''my_'' @ ''key'' @ []"
    by code_simp
  have "''key'' \<in> get_sensitive_variables_fields ?cfg"
    unfolding should_hide_value_for_key_matches [of ?cfg, THEN conjunct2, THEN conjunct1]
    using stripped by (simp add: pieces image_def)
  with key have "\<exists>s \<in> get_sensitive_variables_fields ?cfg.
      \<exists>before after. lower (strip '' My_Key '') = before @ s @ after"
    by blast
  then have "\<exists>key. Some '' My_Key '' = Some key \<and> key \<noteq> []
           \<and> hide_sensitive_variable_fields ?cfg
           \<and> (\<exists>s \<in> get_sensitive_variables_fields ?cfg.
                 \<exists>before after. lower (strip key) = before @ s @ after)"
    by simp
  then have "should_hide_value_for_key ?cfg (Some '' My_Key '')"
    by (rule should_hide_value_for_key_matches
              [where cfg = ?cfg and key_name = "Some '' My_Key ''",
               THEN conjunct2, THEN conjunct2, THEN iffD2])
  with examples show ?thesis
    by simp
qed

text \<open>
  C9. Whatever the configuration, \<open>should_hide_value_for_key\<close> is \<open>False\<close> for an
  empty key, \<open>None\<close> or the empty string.
\<close>

theorem should_hide_value_for_key_empty:
  "should_hide_value_for_key cfg None = False \<and> should_hide_value_for_key cfg (Some []) = False"
  by (simp add: should_hide_value_for_key_def)

section \<open>Properties of the migration\<close>

lemma missing_sequences_Nil:
  "missing_sequences seqs t = [] \<longleftrightarrow> (\<forall>seq. uses_sequence seq t \<longrightarrow> seq \<in> set seqs)"
proof -
  have "[seq. Some seq \<leftarrow> map f cs, seq \<notin> S] = [] \<longleftrightarrow> (\<forall>seq. Some seq \<in> set (map f cs) \<longrightarrow> seq \<in> S)"
    for f :: "'a \<Rightarrow> 'b option" and cs S
    by (induction cs) (auto split: option.splits if_splits)
  then show ?thesis
    by (simp add: missing_sequences_def uses_sequence_def)
qed

lemma wf_schema_iff:
  "wf_schema db \<longleftrightarrow>
     (\<forall>t \<in> set (tables db). \<forall>seq. uses_sequence seq t \<longrightarrow> seq \<in> set (sequences db))"
  by (simp add: wf_schema_def list_all_iff missing_sequences_Nil)

lemma wf_schema_uses:
  "wf_schema db \<Longrightarrow> t \<in> set (tables db) \<Longrightarrow> uses_sequence seq t \<Longrightarrow> seq \<in> set (sequences db)"
  by (simp add: wf_schema_iff)

lemma filter_fresh: "x \<notin> set (map f xs) \<Longrightarrow> [y \<leftarrow> xs. f y \<noteq> x] = xs"
  by (induction xs) auto

lemma run_upgrade:
  assumes "tag_id_sequence \<notin> set (sequences db)"
    and "''task_tag'' \<notin> set (map table_name (tables db))"
  shows "run upgrade db
           = Inr (db\<lparr>sequences := sequences db @ [tag_id_sequence],
                     tables := tables db @ [task_tag]\<rparr>)"
  using assms by (simp add: upgrade_def task_tag_def missing_sequences_def)

lemma run_downgrade:
  assumes "wf_schema db"
    and "tag_id_sequence \<notin> set (sequences db)"
    and "''task_tag'' \<notin> set (map table_name (tables db))"
  shows "run downgrade (db\<lparr>sequences := sequences db @ [tag_id_sequence],
                            tables := tables db @ [task_tag]\<rparr>) = Inr db"
proof -
  have tabs: "[t \<leftarrow> tables db. table_name t \<noteq> ''task_tag''] = tables db"
    using assms(3) by (rule filter_fresh)
  have seqs: "[s \<leftarrow> sequences db. s \<noteq> tag_id_sequence] = sequences db"
    using assms(2) filter_fresh [of tag_id_sequence "\<lambda>s. s" "sequences db"] by simp
  have unused: "\<not> list_ex (uses_sequence tag_id_sequence) (tables db)"
    using assms(1,2) wf_schema_uses by (auto simp: list_ex_iff)
  have name: "table_name task_tag = ''task_tag''"
    by (simp add: task_tag_def)
  show ?thesis
    using assms(3) by (simp add: downgrade_def tabs seqs unused name)
qed

lemma run_append:
  "run (xs @ ys) db = (case run xs db of Inl e \<Rightarrow> Inl e | Inr db' \<Rightarrow> run ys db')"
  by (induction xs arbitrary: db) (auto split: sum.splits)

text \<open>
  C6. On a well-formed schema with neither the sequence nor the table, \<open>upgrade\<close>
  creates the sequence \<open>tag_id_sequence\<close> and then the table \<open>task_tag\<close>;
  \<open>downgrade\<close> drops the table and then the sequence, the creations undone in reverse
  order; and \<open>upgrade\<close> followed by \<open>downgrade\<close> gives back the schema it started
  from, so neither the table nor the sequence remains.
\<close>

theorem upgrade_downgrade_round_trip:
  assumes "wf_schema db"
    and "tag_id_sequence \<notin> set (sequences db)"
    and "''task_tag'' \<notin> set (map table_name (tables db))"
  shows "upgrade = [CreateSequence tag_id_sequence, CreateTable task_tag]
       \<and> downgrade = [DropTable (table_name task_tag), DropSequence tag_id_sequence]
       \<and> downgrade = map undo (rev upgrade)
       \<and> (\<exists>db'. run upgrade db = Inr db'
                \<and> tag_id_sequence \<in> set (sequences db')
                \<and> ''task_tag'' \<in> set (map table_name (tables db'))
                \<and> run downgrade db' = Inr db)
       \<and> run (upgrade @ downgrade) db = Inr db"
proof -
  let ?db' = "db\<lparr>sequences := sequences db @ [tag_id_sequence], tables := tables db @ [task_tag]\<rparr>"
  have up: "run upgrade db = Inr ?db'"
    using assms(2,3) by (rule run_upgrade)
  have down: "run downgrade ?db' = Inr db"
    using assms by (rule run_downgrade)
  have name: "table_name task_tag = ''task_tag''"
    by (simp add: task_tag_def)
  have "tag_id_sequence \<in> set (sequences ?db')" and "''task_tag'' \<in> set (map table_name (tables ?db'))"
    by (simp_all add: name)
  with up down have mid: "\<exists>db'. run upgrade db = Inr db'
                \<and> tag_id_sequence \<in> set (sequences db')
                \<and> ''task_tag'' \<in> set (map table_name (tables db'))
                \<and> run downgrade db' = Inr db"
    by blast
  have both: "run (upgrade @ downgrade) db = Inr db"
    by (simp add: run_append up down)
  have "downgrade = map undo (rev upgrade)"
    by (simp add: upgrade_def downgrade_def name)
  with mid both show ?thesis
    by (simp add: upgrade_def downgrade_def name)
qed

theorem upgrade_downgrade_round_trip_witness:
  "run (upgrade @ downgrade) \<lparr>sequences = [], tables = []\<rparr> = Inr \<lparr>sequences = [], tables = []\<rparr>"
proof -
  let ?db = "\<lparr>sequences = [], tables = []\<rparr>"
  have wf: "wf_schema ?db"
    by (simp add: wf_schema_def)
  have seq: "tag_id_sequence \<notin> set (sequences ?db)"
    by simp
  have tab: "''task_tag'' \<notin> set (map table_name (tables ?db))"
    by simp
  from upgrade_downgrade_round_trip [OF wf seq tab] show ?thesis
    by blast
qed

text \<open>
  Dropping the sequence before the table fails: the table's default still names it.
  The operations of the migration keep a schema well formed.
\<close>

lemma sequence_before_table_fails:
  assumes "tag_id_sequence \<notin> set (sequences db)"
    and "''task_tag'' \<notin> set (map table_name (tables db))"
    and "run upgrade db = Inr db'"
  shows "run (rev downgrade) db' = Inl (DependentObjectsStillExist tag_id_sequence)"
proof -
  have "db' = db\<lparr>sequences := sequences db @ [tag_id_sequence], tables := tables db @ [task_tag]\<rparr>"
    using run_upgrade [OF assms(1,2)] assms(3) by simp
  moreover have "uses_sequence tag_id_sequence task_tag"
    by (simp add: uses_sequence_def task_tag_def)
  ultimately show ?thesis
    by (simp add: downgrade_def)
qed

lemma execute_preserves_wf:
  assumes "wf_schema db" and "execute stmt db = Inr db'"
  shows "wf_schema db'"
proof (cases stmt)
  case (CreateSequence seq)
  with assms show ?thesis
    by (auto simp: wf_schema_iff split: if_splits)
next
  case (CreateTable t)
  with assms show ?thesis
    by (auto simp: wf_schema_iff missing_sequences_Nil split: if_splits list.splits)
next
  case (DropTable name)
  with assms show ?thesis
    by (auto simp: wf_schema_iff split: if_splits)
next
  case (DropSequence seq)
  with assms show ?thesis
    by (auto simp: wf_schema_iff list_ex_iff split: if_splits)
qed

section \<open>Properties of the form converter and of the filters\<close>

text \<open>
  C7. For a column that \<open>is_tasktag\<close> accepts, \<open>_convert_col\<close> is
  \<open>_convert_simple\<close>, whatever the parent's \<open>_convert_col\<close> would do with the
  relation; for any other column it is the parent's \<open>_convert_col\<close> on the same
  arguments.
\<close>

theorem convert_col_tasktag_simple:
  "(is_tasktag datamodel col_name \<longrightarrow>
      (\<forall>super_convert_col' filter_rel_fields'.
         convert_col datamodel convert_simple super_convert_col'
             col_name label description lst_validators filter_rel_fields' form_props
           = convert_simple col_name label description lst_validators form_props))
   \<and> (\<not> is_tasktag datamodel col_name \<longrightarrow>
        convert_col datamodel convert_simple super_convert_col
            col_name label description lst_validators filter_rel_fields form_props
          = super_convert_col col_name label description lst_validators filter_rel_fields
              form_props)"
  by (simp add: convert_col_def)

theorem convert_col_tasktag_simple_witness:
  "convert_col
     \<lparr>list_properties = [''task_tags''], is_relation = (\<lambda>c. True),
      get_related_model = (\<lambda>c. TaskTag)\<rparr>
     (\<lambda>c l d v p. ''simple'') (\<lambda>c l d v f p. ''relation'')
     ''task_tags'' () () () () () = ''simple''"
proof -
  let ?dm = "\<lparr>list_properties = [''task_tags''], is_relation = (\<lambda>c. True),
              get_related_model = (\<lambda>c. TaskTag)\<rparr>"
  have tag: "is_tasktag ?dm ''task_tags''"
    by (simp add: is_tasktag_def)
  from convert_col_tasktag_simple
    [where datamodel = ?dm and col_name = "''task_tags''"
       and convert_simple = "\<lambda>(c::string) (l::unit) (d::unit) (v::unit) (p::unit). ''simple''",
     THEN conjunct1, THEN mp, OF tag, THEN spec, THEN spec]
  show ?thesis
    by simp
qed

text \<open>
  C8. For each of the four UTC-aware filters, \<open>apply\<close> parses the value as UTC and
  then is the wrapped filter's \<open>apply\<close> on the parsed value (an exception of the
  parser is the result).
\<close>

theorem utc_filter_apply_parses_first:
  "utc_filter_apply parse utc fab_apply UtcAwareFilterEqual query value
     = (case parse value utc of Inl e \<Rightarrow> Inl e | Inr v \<Rightarrow> fab_apply FilterEqual query v)
   \<and> utc_filter_apply parse utc fab_apply UtcAwareFilterGreater query value
     = (case parse value utc of Inl e \<Rightarrow> Inl e | Inr v \<Rightarrow> fab_apply FilterGreater query v)
   \<and> utc_filter_apply parse utc fab_apply UtcAwareFilterSmaller query value
     = (case parse value utc of Inl e \<Rightarrow> Inl e | Inr v \<Rightarrow> fab_apply FilterSmaller query v)
   \<and> utc_filter_apply parse utc fab_apply UtcAwareFilterNotEqual query value
     = (case parse value utc of Inl e \<Rightarrow> Inl e | Inr v \<Rightarrow> fab_apply FilterNotEqual query v)"
  by (simp add: utc_filter_apply_def UtcAwareFilterMixin_apply_def)

end
